theory Spec2Isabelle
  imports Main "HOL-Library.Multiset" "HOL-Library.Sublist"
begin

section \<open>Cluster objects\<close>

text \<open>
  \<^verbatim>\<open>pkg/template/processor.go\<close> handles two shapes of \<^verbatim>\<open>runtime.Object\<close>: the generic
  \<^verbatim>\<open>*unstructured.Unstructured\<close> and every other (strongly typed) object. An
  unstructured object is represented by what its accessors return (\<^verbatim>\<open>GetKind\<close>,
  \<^verbatim>\<open>GetAPIVersion\<close>, \<^verbatim>\<open>GetNamespace\<close>, \<^verbatim>\<open>GetName\<close>, \<^verbatim>\<open>GetResourceVersion\<close>; a missing
  entry reads as the empty string) together with the rest of its content. A typed
  object is opaque to this package apart from its \<^verbatim>\<open>GroupVersionKind\<close>.
\<close>

record GroupVersionKind =
  Group :: string
  Version :: string
  Kind :: string

record Unstructured =
  u_apiVersion :: string
  u_kind :: string
  u_namespace :: string
  u_name :: string
  u_resourceVersion :: string
  u_content :: "(string \<times> string) list"

record TypedObject =
  t_gvk :: GroupVersionKind
  t_payload :: string

datatype object = Unstructured Unstructured | Typed TypedObject

record RawExtension =
  Raw :: string
  Object :: "object option"

record NamespacedName =
  key_Namespace :: string
  key_Name :: string

text \<open>\<^verbatim>\<open>&unstructured.Unstructured{}\<close> and the setters used on it.\<close>

definition empty_Unstructured :: Unstructured where
  "empty_Unstructured =
     \<lparr>u_apiVersion = [], u_kind = [], u_namespace = [], u_name = [],
      u_resourceVersion = [], u_content = []\<rparr>"

definition SetKind :: "string \<Rightarrow> Unstructured \<Rightarrow> Unstructured" where
  "SetKind k u = u\<lparr>u_kind := k\<rparr>"

definition SetAPIVersion :: "string \<Rightarrow> Unstructured \<Rightarrow> Unstructured" where
  "SetAPIVersion v u = u\<lparr>u_apiVersion := v\<rparr>"

definition SetResourceVersion :: "string \<Rightarrow> Unstructured \<Rightarrow> Unstructured" where
  "SetResourceVersion rv u = u\<lparr>u_resourceVersion := rv\<rparr>"

text \<open>
  \<^verbatim>\<open>obj.GetObjectKind().GroupVersionKind()\<close>. For an unstructured object the
  apimachinery library splits the \<^verbatim>\<open>apiVersion\<close> string at its slash
  (\<^verbatim>\<open>schema.ParseGroupVersion\<close>); a string with more than one slash does not parse and
  gives the empty \<^verbatim>\<open>GroupVersionKind\<close>.
\<close>

definition ParseGroupVersion :: "string \<Rightarrow> (string \<times> string) option" where
  "ParseGroupVersion gv =
     (if gv = [] \<or> gv = ''/'' then Some ([], [])
      else (case count_list gv (CHR ''/'') of
              0 \<Rightarrow> Some ([], gv)
            | Suc 0 \<Rightarrow> Some (takeWhile (\<lambda>c. c \<noteq> CHR ''/'') gv,
                             tl (dropWhile (\<lambda>c. c \<noteq> CHR ''/'') gv))
            | Suc (Suc _) \<Rightarrow> None))"

definition ObjectKind :: "object \<Rightarrow> GroupVersionKind" where
  "ObjectKind obj =
     (case obj of
        Typed t \<Rightarrow> t_gvk t
      | Unstructured u \<Rightarrow>
          (case ParseGroupVersion (u_apiVersion u) of
             None \<Rightarrow> \<lparr>Group = [], Version = [], Kind = []\<rparr>
           | Some (g, v) \<Rightarrow> \<lparr>Group = g, Version = v, Kind = u_kind u\<rparr>))"

section \<open>Templates\<close>

text \<open>
  \<^verbatim>\<open>templatev1.Template\<close> and \<^verbatim>\<open>templatev1.Parameter\<close>, with the fields the package and
  the template engine read or write.
\<close>

record Parameter =
  Name :: string
  DisplayName :: string
  Description :: string
  Value :: string
  Generate :: string
  From :: string
  Required :: bool

record Template =
  Message :: string
  Objects :: "RawExtension list"
  Parameters :: "Parameter list"
  ObjectLabels :: "(string \<times> string) list"

text \<open>
  \<^verbatim>\<open>templateprocessing.GetParameterByName\<close> walks the parameter slice and returns a
  pointer to the first parameter of that name, or \<^verbatim>\<open>nil\<close>. The pointer into the slice
  is the parameter's index.
\<close>

fun index_of_name :: "Parameter list \<Rightarrow> string \<Rightarrow> nat option" where
  "index_of_name [] n = None"
| "index_of_name (p # ps) n =
     (if Name p = n then Some 0 else map_option Suc (index_of_name ps n))"

definition GetParameterByName :: "Template \<Rightarrow> string \<Rightarrow> nat option" where
  "GetParameterByName t n = index_of_name (Parameters t) n"

section \<open>Errors\<close>

text \<open>
  Errors coming back from the cluster client are classified by \<^verbatim>\<open>apierrors\<close> through
  their status reason only. The errors built by this package wrap a cause with a
  format string and its arguments (\<^verbatim>\<open>errors.Wrap\<close>, \<^verbatim>\<open>errors.Wrapf\<close>); the
  arguments are kept as values, an object argument standing for its \<^verbatim>\<open>%v\<close> rendering.
\<close>

datatype StatusReason =
  StatusReasonUnknown | StatusReasonAlreadyExists | StatusReasonNotFound
  | StatusReasonConflict | StatusReasonInvalid | StatusReasonForbidden

datatype api_error = StatusError StatusReason string | OtherError string

fun IsAlreadyExists :: "api_error \<Rightarrow> bool" where
  "IsAlreadyExists (StatusError r m) = (r = StatusReasonAlreadyExists)"
| "IsAlreadyExists (OtherError m) = False"

datatype FieldError = FieldError string string

datatype fmt_arg = ArgString string | ArgObject object

datatype error =
  ApiError api_error
  | ErrorString string
  | ToAggregate "FieldError list"
  | Wrap error string
  | Wrapf error string "fmt_arg list"

text \<open>The two format strings that end in a quote character.\<close>

definition fmt_unable_to_get :: string where
  "fmt_unable_to_get =
     ''unable to get the resource of kind '%s' and name '%s' in namespace '%s'' @ [CHR 0x27]"

definition fmt_unable_to_update :: string where
  "fmt_unable_to_update =
     ''unable to update the resource of kind '%s' and name '%s' in namespace '%s'' @ [CHR 0x27]"

section \<open>The cluster client, the scheme and the template engine\<close>

text \<open>
  \<^verbatim>\<open>client.Client\<close> is an interface; the three calls the package makes are functions of
  the cluster state \<open>'s\<close> that return the call's error (\<open>None\<close> for \<^verbatim>\<open>nil\<close>) and the
  next state. \<^verbatim>\<open>Get\<close> also returns the object it has filled in. \<^verbatim>\<open>Create\<close> and
  \<^verbatim>\<open>Update\<close> are given the object as a value: a client that writes into the caller's
  object while failing is not modelled, and every list entry holds an object of its own.
\<close>

record 's Client =
  Create :: "object \<Rightarrow> 's \<Rightarrow> api_error option \<times> 's"
  Get :: "NamespacedName \<Rightarrow> Unstructured \<Rightarrow> 's \<Rightarrow> (api_error option \<times> Unstructured) \<times> 's"
  Update :: "object \<Rightarrow> 's \<Rightarrow> api_error option \<times> 's"

text \<open>\<^verbatim>\<open>runtime.Scheme\<close>: only \<^verbatim>\<open>Convert\<close> is used, from a template to a template.\<close>

record Scheme =
  Convert :: "Template \<Rightarrow> error + Template"

record 's Processor =
  cl :: "'s Client"
  scheme :: Scheme

definition NewProcessor :: "'s Client \<Rightarrow> Scheme \<Rightarrow> 's Processor" where
  "NewProcessor c sch = \<lparr>cl = c, scheme = sch\<rparr>"

text \<open>
  The template engine of \<^verbatim>\<open>openshift/library-go\<close> is not part of this package. It is
  a parameter of \<open>Process\<close>: a function from the registered generators and the template
  to the list of field errors and the template as the engine leaves it (the engine
  works on the caller's pointer). The one generator the package registers is built from
  a random source seeded with the current time in nanoseconds.
\<close>

datatype Generator = NewExpressionValueGenerator int

type_synonym TemplateProcessor =
  "(string \<times> Generator) list \<Rightarrow> Template \<Rightarrow> FieldError list \<times> Template"

section \<open>Filter\<close>

type_synonym FilterFunc = "RawExtension \<Rightarrow> bool"

text \<open>
  Modelled from the spec: \<^verbatim>\<open>Filter\<close> and \<^verbatim>\<open>FilterFunc\<close> belong to this package but
  their file is not among the sources. The specification says: apply filters, if any, to
  the object list in sequence; an object is retained only if every filter accepts it; if
  no filters are given, all objects are retained, order preserved.
\<close>

definition Filter :: "RawExtension list \<Rightarrow> FilterFunc list \<Rightarrow> RawExtension list" where
  "Filter objs filters = fold (\<lambda>f os. filter f os) filters objs"

section \<open>Process\<close>

text \<open>
  The loop over the override map. A Go map has one entry per key and is ranged over in
  an order the runtime picks, so the map is the list of its entries in that order.
\<close>

definition inject_variable :: "string \<times> string \<Rightarrow> Template \<Rightarrow> Template" where
  "inject_variable entry tmpl =
     (case entry of
        (param, val) \<Rightarrow>
          (case GetParameterByName tmpl param of
             None \<Rightarrow> tmpl
           | Some i \<Rightarrow>
               tmpl\<lparr>Parameters :=
                      (Parameters tmpl)[i := (Parameters tmpl ! i)\<lparr>Value := val, Generate := []\<rparr>]\<rparr>))"

definition inject_variables :: "Template \<Rightarrow> (string \<times> string) list \<Rightarrow> Template" where
  "inject_variables tmpl values = fold inject_variable values tmpl"

text \<open>
  \<open>Process\<close> returns its Go result (the object list or the error) and the state of the
  caller's template when it returns. \<open>now\<close> is \<^verbatim>\<open>time.Now().UnixNano()\<close>.
\<close>

definition Process ::
  "TemplateProcessor \<Rightarrow> 's Processor \<Rightarrow> Template \<Rightarrow> (string \<times> string) list \<Rightarrow> int
     \<Rightarrow> FilterFunc list \<Rightarrow> (error + RawExtension list) \<times> Template" where
  "Process tmplProcessor p tmpl values now filters =
     (let tmpl1 = inject_variables tmpl values;
          generators = [(''expression'', NewExpressionValueGenerator now)]
      in case tmplProcessor generators tmpl1 of
           (err, tmpl2) \<Rightarrow>
             if length err > 0
             then (Inl (Wrap (ToAggregate err) ''unable to process template''), tmpl2)
             else (case Convert (scheme p) tmpl2 of
                     Inl cerr \<Rightarrow>
                       (Inl (Wrap cerr ''failed to convert template to external template object''),
                        tmpl2)
                   | Inr result \<Rightarrow> (Inr (Filter (Objects result) filters), tmpl2)))"

section \<open>Apply\<close>

definition createOrUpdateObj :: "'s Client \<Rightarrow> object \<Rightarrow> 's \<Rightarrow> error option \<times> 's" where
  "createOrUpdateObj c obj s =
     (case Create c obj s of
        (None, s1) \<Rightarrow> (None, s1)
      | (Some err, s1) \<Rightarrow>
          if \<not> IsAlreadyExists err
          then (Some (Wrapf (ApiError err) ''failed to create object %v'' [ArgObject obj]), s1)
          else (case obj of
                  Unstructured u \<Rightarrow>
                    (let existing =
                           SetAPIVersion (u_apiVersion u) (SetKind (u_kind u) empty_Unstructured)
                     in case Get c \<lparr>key_Namespace = u_namespace u, key_Name = u_name u\<rparr>
                               existing s1 of
                          ((Some gerr, existing'), s2) \<Rightarrow>
                            (Some (Wrapf (ApiError gerr) fmt_unable_to_get
                               [ArgString (u_kind u), ArgString (u_name u),
                                ArgString (u_namespace u)]), s2)
                        | ((None, existing'), s2) \<Rightarrow>
                            (let u' = SetResourceVersion (u_resourceVersion existing') u
                             in case Update c (Unstructured u') s2 of
                                  (Some uerr, s3) \<Rightarrow>
                                    (Some (Wrapf (ApiError uerr) fmt_unable_to_update
                                       [ArgString (u_kind u'), ArgString (u_name u'),
                                        ArgString (u_namespace u')]), s3)
                                | (None, s3) \<Rightarrow> (None, s3)))
                | Typed t \<Rightarrow>
                    (case Update c obj s1 of
                       (Some uerr, s2) \<Rightarrow>
                         (Some (Wrapf (ApiError uerr) ''failed to update object %v''
                            [ArgObject obj]), s2)
                     | (None, s2) \<Rightarrow> (None, s2))))"

fun Apply :: "'s Processor \<Rightarrow> RawExtension list \<Rightarrow> 's \<Rightarrow> error option \<times> 's" where
  "Apply p [] s = (None, s)"
| "Apply p (rawObj # objs) s =
     (case Object rawObj of
        None \<Rightarrow> Apply p objs s
      | Some obj \<Rightarrow>
          (let gvk = ObjectKind obj
           in case createOrUpdateObj (cl p) obj s of
                (Some err, s') \<Rightarrow>
                  (Some (Wrapf err ''unable to create resource of kind: %s, version: %s''
                           [ArgString (Kind gvk), ArgString (Version gvk)]), s')
              | (None, s') \<Rightarrow> Apply p objs s'))"

section \<open>Observing the cluster calls\<close>

text \<open>
  To count cluster calls, a client is wrapped so that every call is appended to a log
  kept beside the cluster state; the wrapped client answers as the original does.
\<close>

datatype call =
  CreateCall object
  | GetCall NamespacedName Unstructured
  | UpdateCall object

definition recording :: "'s Client \<Rightarrow> ('s \<times> call list) Client" where
  "recording c =
     \<lparr>Create = (\<lambda>obj (s, log). case Create c obj s of (r, s') \<Rightarrow> (r, (s', log @ [CreateCall obj]))),
      Get = (\<lambda>key ex (s, log). case Get c key ex s of (r, s') \<Rightarrow> (r, (s', log @ [GetCall key ex]))),
      Update = (\<lambda>obj (s, log). case Update c obj s of (r, s') \<Rightarrow> (r, (s', log @ [UpdateCall obj])))\<rparr>"

text \<open>
  A scripted client for concrete runs: its state is the list of answers still to give,
  one per call; with the script used up every call succeeds. A successful \<^verbatim>\<open>Get\<close>
  fills in the key and the resource version \<open>''7''\<close>.
\<close>

definition scripted_get :: "NamespacedName \<Rightarrow> Unstructured \<Rightarrow> Unstructured" where
  "scripted_get key ex =
     ex\<lparr>u_namespace := key_Namespace key, u_name := key_Name key, u_resourceVersion := ''7''\<rparr>"

definition scripted :: "(api_error option list) Client" where
  "scripted =
     \<lparr>Create = (\<lambda>obj s. case s of [] \<Rightarrow> (None, []) | r # rs \<Rightarrow> (r, rs)),
      Get = (\<lambda>key ex s. case s of [] \<Rightarrow> ((None, scripted_get key ex), [])
                         | r # rs \<Rightarrow> ((r, scripted_get key ex), rs)),
      Update = (\<lambda>obj s. case s of [] \<Rightarrow> (None, []) | r # rs \<Rightarrow> (r, rs))\<rparr>"

section \<open>Concrete inputs\<close>

text \<open>Objects, errors, a scheme and a processor for the concrete runs below.\<close>

definition demo_unstructured :: Unstructured where
  "demo_unstructured =
     \<lparr>u_apiVersion = ''v1'', u_kind = ''ConfigMap'', u_namespace = ''dev'', u_name = ''cm'',
      u_resourceVersion = [], u_content = [(''data'', ''x'')]\<rparr>"

definition demo_typed :: TypedObject where
  "demo_typed = \<lparr>t_gvk = \<lparr>Group = [], Version = ''v1'', Kind = ''Namespace''\<rparr>, t_payload = ''dev''\<rparr>"

definition already_exists :: api_error where
  "already_exists = StatusError StatusReasonAlreadyExists ''exists''"

definition forbidden :: api_error where
  "forbidden = StatusError StatusReasonForbidden ''no''"

definition raw_of :: "object \<Rightarrow> RawExtension" where
  "raw_of obj = \<lparr>Raw = [], Object = Some obj\<rparr>"

definition demo_scheme :: Scheme where
  "demo_scheme = \<lparr>Convert = Inr\<rparr>"

definition failing_scheme :: Scheme where
  "failing_scheme = \<lparr>Convert = (\<lambda>t. Inl (ErrorString ''no conversion''))\<rparr>"

definition demo_processor :: "(api_error option list \<times> call list) Processor" where
  "demo_processor = NewProcessor (recording scripted) demo_scheme"

definition failing_processor :: "(api_error option list \<times> call list) Processor" where
  "failing_processor = NewProcessor (recording scripted) failing_scheme"

text \<open>
  A template has no generator-dependent parameter when no parameter carries a
  generator directive.
\<close>

definition generator_free :: "Template \<Rightarrow> bool" where
  "generator_free t = list_all (\<lambda>p. Generate p = []) (Parameters t)"

text \<open>
  A small engine for concrete runs. It gives a value to every parameter that has no
  value and names a registered generator (the value depends on the generator's seed),
  reports a parameter that names an unregistered generator, and leaves the rest of the
  template as it is.
\<close>

definition toy_generate :: "(string \<times> Generator) list \<Rightarrow> Parameter \<Rightarrow> Parameter" where
  "toy_generate gens p =
     (if Value p = [] \<and> Generate p \<noteq> []
      then (case map_of gens (Generate p) of
              None \<Rightarrow> p
            | Some (NewExpressionValueGenerator seed) \<Rightarrow>
                p\<lparr>Value := (if even seed then ''even'' else ''odd'')\<rparr>)
      else p)"

definition toy_engine :: TemplateProcessor where
  "toy_engine gens t =
     (map (\<lambda>p. FieldError (Name p) ''unknown generator'')
        (filter (\<lambda>p. Value p = [] \<and> Generate p \<noteq> [] \<and> map_of gens (Generate p) = None)
           (Parameters t)),
      t\<lparr>Parameters := map (toy_generate gens) (Parameters t)\<rparr>)"

definition demo_parameter :: "string \<Rightarrow> string \<Rightarrow> string \<Rightarrow> Parameter" where
  "demo_parameter n v g =
     \<lparr>Name = n, DisplayName = [], Description = [], Value = v, Generate = g, From = [],
      Required = False\<rparr>"

definition demo_template :: Template where
  "demo_template =
     \<lparr>Message = [],
      Objects = [raw_of (Unstructured demo_unstructured), raw_of (Typed demo_typed)],
      Parameters = [demo_parameter ''USER'' [] [], demo_parameter ''TOKEN'' [] ''expression''],
      ObjectLabels = []\<rparr>"

text \<open>Two filters for concrete runs.\<close>

definition demo_filter_object :: FilterFunc where
  "demo_filter_object r = (Object r \<noteq> None)"

definition demo_filter_typed :: FilterFunc where
  "demo_filter_typed r = (case Object r of Some (Typed t) \<Rightarrow> True | _ \<Rightarrow> False)"

section \<open>Auxiliary facts\<close>

lemmas demo_defs =
  demo_unstructured_def demo_typed_def already_exists_def forbidden_def raw_of_def
  demo_processor_def NewProcessor_def scripted_def scripted_get_def

lemma recording_Create:
  "Create (recording c) obj (s, log) = (fst (Create c obj s), (snd (Create c obj s), log @ [CreateCall obj]))"
  by (simp add: recording_def split: prod.splits)

lemma recording_Get:
  "Get (recording c) key ex (s, log) = (fst (Get c key ex s), (snd (Get c key ex s), log @ [GetCall key ex]))"
  by (simp add: recording_def split: prod.splits)

lemma recording_Update:
  "Update (recording c) obj (s, log) = (fst (Update c obj s), (snd (Update c obj s), log @ [UpdateCall obj]))"
  by (simp add: recording_def split: prod.splits)

lemma Apply_append:
  "Apply p (xs @ ys) s =
     (case Apply p xs s of (None, s') \<Rightarrow> Apply p ys s' | (Some e, s') \<Rightarrow> (Some e, s'))"
  by (induction xs arbitrary: s) (auto simp: Let_def split: option.splits prod.splits)

lemma createOrUpdateObj_log:
  "createOrUpdateObj (recording c) (Unstructured u) (s, log0) = (r, (s', log)) \<Longrightarrow>
   \<exists>rv. log \<in> {log0 @ [CreateCall (Unstructured u)],
         log0 @ [CreateCall (Unstructured u),
          GetCall \<lparr>key_Namespace = u_namespace u, key_Name = u_name u\<rparr>
            (empty_Unstructured\<lparr>u_kind := u_kind u, u_apiVersion := u_apiVersion u\<rparr>)],
         log0 @ [CreateCall (Unstructured u),
          GetCall \<lparr>key_Namespace = u_namespace u, key_Name = u_name u\<rparr>
            (empty_Unstructured\<lparr>u_kind := u_kind u, u_apiVersion := u_apiVersion u\<rparr>),
          UpdateCall (Unstructured (u\<lparr>u_resourceVersion := rv\<rparr>))]}"
  by (auto simp add: createOrUpdateObj_def recording_Create recording_Get
      recording_Update Let_def SetKind_def SetAPIVersion_def SetResourceVersion_def
      split: option.splits prod.splits if_splits)

lemma createOrUpdateObj_Some_iff:
  "createOrUpdateObj c obj s = (Some inner, s') \<longleftrightarrow>
     (\<exists>e. Create c obj s = (Some e, s') \<and> \<not> IsAlreadyExists e \<and>
        inner = Wrapf (ApiError e) ''failed to create object %v'' [ArgObject obj]) \<or>
     (\<exists>u e0 s1 e ex'. obj = Unstructured u \<and>
        Create c obj s = (Some e0, s1) \<and> IsAlreadyExists e0 \<and>
        Get c \<lparr>key_Namespace = u_namespace u, key_Name = u_name u\<rparr>
          (empty_Unstructured\<lparr>u_kind := u_kind u, u_apiVersion := u_apiVersion u\<rparr>) s1
          = ((Some e, ex'), s') \<and>
        inner = Wrapf (ApiError e) fmt_unable_to_get
                  [ArgString (u_kind u), ArgString (u_name u), ArgString (u_namespace u)]) \<or>
     (\<exists>u e0 s1 ex' s2 e. obj = Unstructured u \<and>
        Create c obj s = (Some e0, s1) \<and> IsAlreadyExists e0 \<and>
        Get c \<lparr>key_Namespace = u_namespace u, key_Name = u_name u\<rparr>
          (empty_Unstructured\<lparr>u_kind := u_kind u, u_apiVersion := u_apiVersion u\<rparr>) s1
          = ((None, ex'), s2) \<and>
        Update c (Unstructured (u\<lparr>u_resourceVersion := u_resourceVersion ex'\<rparr>)) s2
          = (Some e, s') \<and>
        inner = Wrapf (ApiError e) fmt_unable_to_update
                  [ArgString (u_kind u), ArgString (u_name u), ArgString (u_namespace u)]) \<or>
     (\<exists>t e0 s1 e. obj = Typed t \<and>
        Create c obj s = (Some e0, s1) \<and> IsAlreadyExists e0 \<and>
        Update c obj s1 = (Some e, s') \<and>
        inner = Wrapf (ApiError e) ''failed to update object %v'' [ArgObject obj])"
  unfolding createOrUpdateObj_def Let_def SetKind_def SetAPIVersion_def SetResourceVersion_def
  by (auto split: option.splits prod.splits if_splits object.splits)

lemma Apply_Some_iff:
  "Apply p objs s = (Some err, s') \<longleftrightarrow>
     (\<exists>pre rawObj post obj s0 inner.
        objs = pre @ rawObj # post \<and> Object rawObj = Some obj \<and>
        Apply p pre s = (None, s0) \<and>
        err = Wrapf inner ''unable to create resource of kind: %s, version: %s''
                [ArgString (Kind (ObjectKind obj)), ArgString (Version (ObjectKind obj))] \<and>
        createOrUpdateObj (cl p) obj s0 = (Some inner, s'))"
  (is "?L objs s \<longleftrightarrow> ?R objs s")
proof
  assume "?R objs s"
  then show "?L objs s"
    by (auto simp: Apply_append Let_def)
next
  assume "?L objs s"
  then show "?R objs s"
  proof (induction objs arbitrary: s)
    case Nil
    then show ?case by simp
  next
    case (Cons rawObj objs)
    show ?case
    proof (cases "Object rawObj")
      case None
      with Cons.prems have "Apply p objs s = (Some err, s')" by simp
      from Cons.IH[OF this] obtain pre r post obj s0 inner where
        *: "objs = pre @ r # post" "Object r = Some obj" "Apply p pre s = (None, s0)"
           "createOrUpdateObj (cl p) obj s0 = (Some inner, s')"
           "err = Wrapf inner ''unable to create resource of kind: %s, version: %s''
                [ArgString (Kind (ObjectKind obj)), ArgString (Version (ObjectKind obj))]"
        by blast
      from * None have "rawObj # objs = (rawObj # pre) @ r # post"
        "Apply p (rawObj # pre) s = (None, s0)"
        by simp_all
      with * show ?thesis by blast
    next
      case (Some obj)
      show ?thesis
      proof (cases "createOrUpdateObj (cl p) obj s")
        case (Pair res s1)
        show ?thesis
        proof (cases res)
          case None
          with Cons.prems Some Pair have "Apply p objs s1 = (Some err, s')"
            by (simp add: Let_def)
          from Cons.IH[OF this] obtain pre r post obj' s0 inner where
            *: "objs = pre @ r # post" "Object r = Some obj'" "Apply p pre s1 = (None, s0)"
               "createOrUpdateObj (cl p) obj' s0 = (Some inner, s')"
               "err = Wrapf inner ''unable to create resource of kind: %s, version: %s''
                    [ArgString (Kind (ObjectKind obj')), ArgString (Version (ObjectKind obj'))]"
            by blast
          from * None Some Pair have "rawObj # objs = (rawObj # pre) @ r # post"
            "Apply p (rawObj # pre) s = (None, s0)"
            by (simp_all add: Let_def)
          with * show ?thesis by blast
        next
          case (Some inner)
          with Cons.prems \<open>Object rawObj = Some obj\<close> Pair
          have "err = Wrapf inner ''unable to create resource of kind: %s, version: %s''
                       [ArgString (Kind (ObjectKind obj)), ArgString (Version (ObjectKind obj))]"
            and "createOrUpdateObj (cl p) obj s = (Some inner, s')"
            by (simp_all add: Let_def)
          moreover have "rawObj # objs = [] @ rawObj # objs" "Apply p [] s = (None, s)"
            by simp_all
          ultimately show ?thesis using \<open>Object rawObj = Some obj\<close> by blast
        qed
      qed
    qed
  qed
qed

lemma index_of_name_Some:
  "index_of_name ps n = Some i \<Longrightarrow> i < length ps \<and> Name (ps ! i) = n"
proof (induction ps arbitrary: i)
  case Nil
  then show ?case by simp
next
  case (Cons p ps)
  show ?case
  proof (cases "Name p = n")
    case True
    with Cons.prems show ?thesis by simp
  next
    case False
    with Cons.prems obtain j where j: "index_of_name ps n = Some j" "i = Suc j"
      by auto
    from Cons.IH[OF j(1)] j(2) show ?thesis by simp
  qed
qed

lemma index_of_name_None_iff:
  "index_of_name ps n = None \<longleftrightarrow> n \<notin> Name ` set ps"
  by (induction ps) auto

lemma index_of_name_cong:
  "map Name ps = map Name qs \<Longrightarrow> index_of_name ps n = index_of_name qs n"
proof (induction ps arbitrary: qs)
  case Nil
  then show ?case by simp
next
  case (Cons p ps)
  then obtain q qs' where q: "qs = q # qs'" "Name p = Name q" "map Name ps = map Name qs'"
    by (cases qs) auto
  from Cons.IH[OF q(3)] q(1,2) show ?case by simp
qed

lemma inject_variable_names:
  "map Name (Parameters (inject_variable e t)) = map Name (Parameters t)"
proof (cases e)
  case (Pair k v)
  show ?thesis
  proof (cases "GetParameterByName t k")
    case None
    with Pair show ?thesis by (simp add: inject_variable_def)
  next
    case (Some i)
    then have i: "i < length (Parameters t)"
      by (simp add: GetParameterByName_def index_of_name_Some)
    have "map Name ((Parameters t)[i := (Parameters t ! i)\<lparr>Value := v, Generate := []\<rparr>])
            = (map Name (Parameters t))[i := Name (Parameters t ! i)]"
      by (simp add: map_update)
    also have "\<dots> = (map Name (Parameters t))[i := map Name (Parameters t) ! i]"
      using i by simp
    also have "\<dots> = map Name (Parameters t)"
      by (rule list_update_id)
    finally show ?thesis
      using Pair Some by (simp add: inject_variable_def)
  qed
qed

lemma GetParameterByName_inject_variable:
  "GetParameterByName (inject_variable e t) n = GetParameterByName t n"
  unfolding GetParameterByName_def
  by (rule index_of_name_cong) (rule inject_variable_names)

lemma inject_variable_commute:
  assumes "fst e1 \<noteq> fst e2"
  shows "inject_variable e1 (inject_variable e2 t) = inject_variable e2 (inject_variable e1 t)"
proof -
  obtain k1 v1 k2 v2 where e: "e1 = (k1, v1)" "e2 = (k2, v2)"
    by (cases e1, cases e2) auto
  with assms have ne: "k1 \<noteq> k2" by simp
  have g1: "GetParameterByName (inject_variable (k2, v2) t) k1 = GetParameterByName t k1"
    and g2: "GetParameterByName (inject_variable (k1, v1) t) k2 = GetParameterByName t k2"
    by (rule GetParameterByName_inject_variable)+
  show ?thesis
  proof (cases "GetParameterByName t k1")
    case None
    with g1 show ?thesis unfolding e by (simp add: inject_variable_def)
  next
    case i1: (Some i1)
    show ?thesis
    proof (cases "GetParameterByName t k2")
      case None
      with g2 show ?thesis unfolding e by (simp add: inject_variable_def)
    next
      case i2: (Some i2)
      from i1 i2 ne have "i1 \<noteq> i2"
        by (auto simp: GetParameterByName_def dest: index_of_name_Some)
      have l: "inject_variable (k1, v1) t =
                 t\<lparr>Parameters := (Parameters t)[i1 := (Parameters t ! i1)\<lparr>Value := v1, Generate := []\<rparr>]\<rparr>"
        and r: "inject_variable (k2, v2) t =
                 t\<lparr>Parameters := (Parameters t)[i2 := (Parameters t ! i2)\<lparr>Value := v2, Generate := []\<rparr>]\<rparr>"
        using i1 i2 by (simp_all add: inject_variable_def)
      have "inject_variable (k1, v1) (inject_variable (k2, v2) t) =
              t\<lparr>Parameters := (Parameters t)[i2 := (Parameters t ! i2)\<lparr>Value := v2, Generate := []\<rparr>,
                                              i1 := (Parameters t ! i1)\<lparr>Value := v1, Generate := []\<rparr>]\<rparr>"
        using g1 i1 \<open>i1 \<noteq> i2\<close> by (simp add: inject_variable_def[of "(k1, v1)"] r)
      moreover have "inject_variable (k2, v2) (inject_variable (k1, v1) t) =
              t\<lparr>Parameters := (Parameters t)[i1 := (Parameters t ! i1)\<lparr>Value := v1, Generate := []\<rparr>,
                                              i2 := (Parameters t ! i2)\<lparr>Value := v2, Generate := []\<rparr>]\<rparr>"
        using g2 i2 \<open>i1 \<noteq> i2\<close> by (simp add: inject_variable_def[of "(k2, v2)"] l)
      ultimately show ?thesis
        unfolding e using \<open>i1 \<noteq> i2\<close> by (simp add: list_update_swap)
    qed
  qed
qed

lemma inject_variable_commute_distinct:
  assumes "distinct (map fst vs)" "x \<in> set vs" "y \<in> set vs"
  shows "inject_variable x \<circ> inject_variable y = inject_variable y \<circ> inject_variable x"
proof (cases "x = y")
  case True
  then show ?thesis by simp
next
  case False
  from assms(1) have "inj_on fst (set vs)" by (simp add: distinct_map)
  with assms(2,3) False have ne: "fst x \<noteq> fst y" by (auto dest: inj_onD)
  show ?thesis
  proof (rule ext)
    fix t
    show "(inject_variable x \<circ> inject_variable y) t = (inject_variable y \<circ> inject_variable x) t"
      unfolding comp_apply by (rule inject_variable_commute[OF ne])
  qed
qed

lemma inject_variables_map_of:
  assumes "distinct (map fst vs1)" "distinct (map fst vs2)" "map_of vs1 = map_of vs2"
  shows "inject_variables t vs1 = inject_variables t vs2"
proof -
  from assms have "set vs1 = set vs2" by (simp add: map_of_inject_set)
  moreover from assms have "distinct vs1" "distinct vs2" by (simp_all add: distinct_map)
  ultimately have "mset vs1 = mset vs2" by (simp add: set_eq_iff_mset_eq_distinct)
  with assms(1) have "fold inject_variable vs1 = fold inject_variable vs2"
    by (intro fold_multiset_equiv inject_variable_commute_distinct)
  then show ?thesis by (simp add: inject_variables_def)
qed

lemma inject_variables_other_keys:
  assumes "k \<notin> fst ` set vs" "GetParameterByName t k = Some i"
  shows "Parameters (inject_variables t vs) ! i = Parameters t ! i"
  using assms unfolding inject_variables_def
proof (induction vs arbitrary: t)
  case Nil
  then show ?case by simp
next
  case (Cons e vs)
  obtain k' v' where e: "e = (k', v')" by (cases e)
  with Cons.prems have ne: "k' \<noteq> k" by auto
  have "Parameters (inject_variable e t) ! i = Parameters t ! i"
  proof (cases "GetParameterByName t k'")
    case None
    with e show ?thesis by (simp add: inject_variable_def)
  next
    case (Some j)
    with Cons.prems(2) ne have "j \<noteq> i"
      by (auto simp: GetParameterByName_def dest: index_of_name_Some)
    with e Some show ?thesis by (simp add: inject_variable_def)
  qed
  moreover have "Parameters (fold inject_variable vs (inject_variable e t)) ! i
                   = Parameters (inject_variable e t) ! i"
    using Cons.prems by (intro Cons.IH) (simp_all add: GetParameterByName_inject_variable)
  ultimately show ?case by simp
qed

lemma inject_variables_unmatched:
  assumes "GetParameterByName t k = None"
  shows "inject_variables t vs = inject_variables t (filter (\<lambda>e. fst e \<noteq> k) vs)"
  using assms unfolding inject_variables_def
proof (induction vs arbitrary: t)
  case Nil
  then show ?case by simp
next
  case (Cons e vs)
  show ?case
  proof (cases "fst e = k")
    case True
    with Cons.prems have "inject_variable e t = t"
      by (cases e) (simp add: inject_variable_def)
    with True Cons show ?thesis by simp
  next
    case False
    with Cons.IH[of "inject_variable e t"] Cons.prems show ?thesis
      by (simp add: GetParameterByName_inject_variable)
  qed
qed

lemmas template_defs =
  demo_template_def demo_parameter_def GetParameterByName_def inject_variables_def
  inject_variable_def

lemma Filter_eq_filter:
  "Filter objs filters = filter (\<lambda>obj. list_all (\<lambda>f. f obj) filters) objs"
  unfolding Filter_def
proof (induction filters arbitrary: objs)
  case Nil
  show ?case by simp
next
  case (Cons f fs)
  have "fold (\<lambda>f os. filter f os) (f # fs) objs = fold (\<lambda>f os. filter f os) fs (filter f objs)"
    by simp
  also have "\<dots> = filter (\<lambda>obj. list_all (\<lambda>g. g obj) fs) (filter f objs)"
    by (rule Cons.IH)
  also have "\<dots> = filter (\<lambda>obj. list_all (\<lambda>g. g obj) (f # fs)) objs"
    by (simp add: conj_commute)
  finally show ?case .
qed

lemma toy_engine_generator_free:
  assumes "generator_free t"
  shows "toy_engine gens t = toy_engine gens' t"
proof -
  from assms have g: "\<forall>q \<in> set (Parameters t). Generate q = []"
    by (simp add: generator_free_def list_all_iff)
  then have "map (toy_generate gens) (Parameters t) = map (toy_generate gens') (Parameters t)"
    by (simp add: toy_generate_def)
  moreover from g have
    "filter (\<lambda>q. Value q = [] \<and> Generate q \<noteq> [] \<and> map_of gens (Generate q) = None) (Parameters t) =
     filter (\<lambda>q. Value q = [] \<and> Generate q \<noteq> [] \<and> map_of gens' (Generate q) = None) (Parameters t)"
    by (intro filter_cong) auto
  ultimately show ?thesis by (simp add: toy_engine_def)
qed

section \<open>Apply: a create failure other than already-exists\<close>

text \<open>
  Claim C3. Let the objects before \<open>rawObj\<close> be applied without error, and let the
  \<^verbatim>\<open>Create\<close> of \<open>rawObj\<close>'s object fail with an error that is not classified as
  already-exists. Then \<open>Apply\<close> returns that error wrapped by \<open>createOrUpdateObj\<close> and
  wrapped again with the kind and version of the object, and the log of cluster calls
  ends with this \<^verbatim>\<open>Create\<close>: no call is made for the objects of \<open>post\<close>.
\<close>

theorem Apply_create_failure_aborts:
  assumes "cl p = recording c"
    and "Object rawObj = Some obj"
    and "Apply p pre (s0, log0) = (None, (s1, log1))"
    and "Create c obj s1 = (Some e, s2)"
    and "\<not> IsAlreadyExists e"
  shows "Apply p (pre @ rawObj # post) (s0, log0) =
           (Some (Wrapf (Wrapf (ApiError e) ''failed to create object %v'' [ArgObject obj])
                    ''unable to create resource of kind: %s, version: %s''
                    [ArgString (Kind (ObjectKind obj)), ArgString (Version (ObjectKind obj))]),
            (s2, log1 @ [CreateCall obj]))"
  using assms
  by (simp add: Apply_append createOrUpdateObj_def recording_Create Let_def)


theorem Apply_create_failure_aborts_witness:
  "Apply demo_processor
     ([raw_of (Typed demo_typed)] @ raw_of (Unstructured demo_unstructured) # [raw_of (Typed demo_typed)])
     ([None, Some forbidden], []) =
   (Some (Wrapf (Wrapf (ApiError forbidden) ''failed to create object %v''
                   [ArgObject (Unstructured demo_unstructured)])
            ''unable to create resource of kind: %s, version: %s''
            [ArgString ''ConfigMap'', ArgString ''v1'']),
    ([], [CreateCall (Typed demo_typed), CreateCall (Unstructured demo_unstructured)]))"
proof -
  have 1: "cl demo_processor = recording scripted"
    by (simp add: demo_processor_def NewProcessor_def)
  have 2: "Object (raw_of (Unstructured demo_unstructured)) = Some (Unstructured demo_unstructured)"
    by (simp add: raw_of_def)
  have 3: "Apply demo_processor [raw_of (Typed demo_typed)] ([None, Some forbidden], []) =
             (None, ([Some forbidden], [CreateCall (Typed demo_typed)]))"
    by (simp add: demo_defs createOrUpdateObj_def recording_Create Let_def)
  have 4: "Create scripted (Unstructured demo_unstructured) [Some forbidden] = (Some forbidden, [])"
    by (simp add: scripted_def)
  have 5: "\<not> IsAlreadyExists forbidden"
    by (simp add: forbidden_def)
  have 6: "Kind (ObjectKind (Unstructured demo_unstructured)) = ''ConfigMap''"
      "Version (ObjectKind (Unstructured demo_unstructured)) = ''v1''"
    by (simp_all add: ObjectKind_def ParseGroupVersion_def demo_unstructured_def)
  from Apply_create_failure_aborts[OF 1 2 3 4 5, of "[raw_of (Typed demo_typed)]"] 6
  show ?thesis by simp
qed



section \<open>Apply: an unstructured object that already exists\<close>

text \<open>
  Claim C1, as amended. Let the objects before \<open>rawObj\<close> be applied without error, let
  \<open>rawObj\<close> hold the unstructured object \<open>u\<close>, and let its \<^verbatim>\<open>Create\<close> fail with an
  already-exists error. Then \<open>Apply\<close> makes exactly one \<^verbatim>\<open>Get\<close>, with the namespace and
  name of \<open>u\<close> as key and an empty object carrying the kind and apiVersion of \<open>u\<close>.
  If the \<^verbatim>\<open>Get\<close> fails, \<open>Apply\<close> returns its error wrapped and makes no \<^verbatim>\<open>Update\<close>.
  If it succeeds, \<open>Apply\<close> makes exactly one \<^verbatim>\<open>Update\<close>, of \<open>u\<close> with the resource
  version read from the object the \<^verbatim>\<open>Get\<close> filled in; an error of that \<^verbatim>\<open>Update\<close> is
  returned wrapped, and otherwise \<open>Apply\<close> goes on with the objects of \<open>post\<close>.
\<close>

theorem Apply_existing_unstructured:
  assumes "cl p = recording c"
    and "Object rawObj = Some (Unstructured u)"
    and "Apply p pre (s0, log0) = (None, (s1, log1))"
    and "Create c (Unstructured u) s1 = (Some e, s2)"
    and "IsAlreadyExists e"
    and "key = \<lparr>key_Namespace = u_namespace u, key_Name = u_name u\<rparr>"
    and "existing = empty_Unstructured\<lparr>u_kind := u_kind u, u_apiVersion := u_apiVersion u\<rparr>"
    and "Get c key existing s2 = ((gerr, existing'), s3)"
    and "u' = u\<lparr>u_resourceVersion := u_resourceVersion existing'\<rparr>"
  shows "Apply p (pre @ rawObj # post) (s0, log0) =
           (case gerr of
              Some ge \<Rightarrow>
                (Some (Wrapf (Wrapf (ApiError ge) fmt_unable_to_get
                                [ArgString (u_kind u), ArgString (u_name u), ArgString (u_namespace u)])
                         ''unable to create resource of kind: %s, version: %s''
                         [ArgString (Kind (ObjectKind (Unstructured u))),
                          ArgString (Version (ObjectKind (Unstructured u)))]),
                 (s3, log1 @ [CreateCall (Unstructured u), GetCall key existing]))
            | None \<Rightarrow>
                (case Update c (Unstructured u') s3 of
                   (None, s4) \<Rightarrow>
                     Apply p post
                       (s4, log1 @ [CreateCall (Unstructured u), GetCall key existing,
                                    UpdateCall (Unstructured u')])
                 | (Some ue, s4) \<Rightarrow>
                     (Some (Wrapf (Wrapf (ApiError ue) fmt_unable_to_update
                                     [ArgString (u_kind u), ArgString (u_name u),
                                      ArgString (u_namespace u)])
                              ''unable to create resource of kind: %s, version: %s''
                              [ArgString (Kind (ObjectKind (Unstructured u))),
                               ArgString (Version (ObjectKind (Unstructured u)))]),
                      (s4, log1 @ [CreateCall (Unstructured u), GetCall key existing,
                                   UpdateCall (Unstructured u')]))))"
  using assms
  by (simp add: Apply_append createOrUpdateObj_def recording_Create recording_Get
      recording_Update Let_def SetKind_def SetAPIVersion_def SetResourceVersion_def
      split: option.splits prod.splits)

theorem Apply_existing_unstructured_witness:
  "Apply demo_processor
     ([raw_of (Typed demo_typed)] @ raw_of (Unstructured demo_unstructured) # [raw_of (Typed demo_typed)])
     ([None, Some already_exists, None, None], []) =
   (None,
    ([], [CreateCall (Typed demo_typed),
          CreateCall (Unstructured demo_unstructured),
          GetCall \<lparr>key_Namespace = ''dev'', key_Name = ''cm''\<rparr>
            (empty_Unstructured\<lparr>u_kind := ''ConfigMap'', u_apiVersion := ''v1''\<rparr>),
          UpdateCall (Unstructured (demo_unstructured\<lparr>u_resourceVersion := ''7''\<rparr>)),
          CreateCall (Typed demo_typed)]))"
proof -
  have 1: "cl demo_processor = recording scripted"
    by (simp add: demo_processor_def NewProcessor_def)
  have 2: "Object (raw_of (Unstructured demo_unstructured)) = Some (Unstructured demo_unstructured)"
    by (simp add: raw_of_def)
  have 3: "Apply demo_processor [raw_of (Typed demo_typed)]
             ([None, Some already_exists, None, None], []) =
             (None, ([Some already_exists, None, None], [CreateCall (Typed demo_typed)]))"
    by (simp add: demo_defs createOrUpdateObj_def recording_Create Let_def)
  have 4: "Create scripted (Unstructured demo_unstructured) [Some already_exists, None, None] =
             (Some already_exists, [None, None])"
    by (simp add: scripted_def)
  have 5: "IsAlreadyExists already_exists"
    by (simp add: already_exists_def)
  have 6: "Get scripted \<lparr>key_Namespace = u_namespace demo_unstructured, key_Name = u_name demo_unstructured\<rparr>
             (empty_Unstructured\<lparr>u_kind := u_kind demo_unstructured,
                                  u_apiVersion := u_apiVersion demo_unstructured\<rparr>) [None, None] =
             ((None, scripted_get
                  \<lparr>key_Namespace = u_namespace demo_unstructured, key_Name = u_name demo_unstructured\<rparr>
                  (empty_Unstructured\<lparr>u_kind := u_kind demo_unstructured,
                                  u_apiVersion := u_apiVersion demo_unstructured\<rparr>)), [None])"
    by (simp add: scripted_def)
  have 7: "Apply demo_processor [raw_of (Typed demo_typed)] ([], log) =
             (None, ([], log @ [CreateCall (Typed demo_typed)]))" for log
    by (simp add: demo_defs createOrUpdateObj_def recording_Create Let_def)
  from Apply_existing_unstructured[OF 1 2 3 4 5 refl refl 6 refl, of "[raw_of (Typed demo_typed)]"] 7
  show ?thesis
    by (simp add: scripted_def scripted_get_def demo_unstructured_def)
qed

text \<open>
  The claim as first stated promises the \<^verbatim>\<open>Update\<close> whenever the \<^verbatim>\<open>Create\<close> fails with
  already-exists. In this run the \<^verbatim>\<open>Create\<close> fails so, the \<^verbatim>\<open>Get\<close> is refused, and the
  log holds the \<^verbatim>\<open>Create\<close> and the \<^verbatim>\<open>Get\<close> only.
\<close>

theorem Apply_existing_unstructured_counterexample:
  "Create scripted (Unstructured demo_unstructured) [Some already_exists, Some forbidden] =
     (Some already_exists, [Some forbidden]) \<and>
   IsAlreadyExists already_exists \<and>
   Apply demo_processor [raw_of (Unstructured demo_unstructured)]
     ([Some already_exists, Some forbidden], []) =
   (Some (Wrapf (Wrapf (ApiError forbidden) fmt_unable_to_get
                   [ArgString ''ConfigMap'', ArgString ''cm'', ArgString ''dev''])
            ''unable to create resource of kind: %s, version: %s''
            [ArgString ''ConfigMap'', ArgString ''v1'']),
    ([], [CreateCall (Unstructured demo_unstructured),
          GetCall \<lparr>key_Namespace = ''dev'', key_Name = ''cm''\<rparr>
            (empty_Unstructured\<lparr>u_kind := ''ConfigMap'', u_apiVersion := ''v1''\<rparr>)]))"
  by (simp add: demo_defs createOrUpdateObj_def recording_Create recording_Get Let_def
      SetKind_def SetAPIVersion_def ObjectKind_def ParseGroupVersion_def)

section \<open>Apply: a typed object that already exists\<close>

text \<open>
  Claim C4. Let the objects before \<open>rawObj\<close> be applied without error, let \<open>rawObj\<close>
  hold the typed object \<open>t\<close>, and let its \<^verbatim>\<open>Create\<close> fail with an already-exists error.
  Then the calls \<open>Apply\<close> makes for this object are the \<^verbatim>\<open>Create\<close> and one \<^verbatim>\<open>Update\<close> of
  the same object, with no \<^verbatim>\<open>Get\<close>. If the \<^verbatim>\<open>Update\<close> fails, its error is returned
  wrapped and the log ends there: nothing is tried again.
\<close>

theorem Apply_existing_typed:
  assumes "cl p = recording c"
    and "Object rawObj = Some (Typed t)"
    and "Apply p pre (s0, log0) = (None, (s1, log1))"
    and "Create c (Typed t) s1 = (Some e, s2)"
    and "IsAlreadyExists e"
  shows "Apply p (pre @ rawObj # post) (s0, log0) =
           (case Update c (Typed t) s2 of
              (None, s3) \<Rightarrow>
                Apply p post (s3, log1 @ [CreateCall (Typed t), UpdateCall (Typed t)])
            | (Some ue, s3) \<Rightarrow>
                (Some (Wrapf (Wrapf (ApiError ue) ''failed to update object %v'' [ArgObject (Typed t)])
                         ''unable to create resource of kind: %s, version: %s''
                         [ArgString (Kind (ObjectKind (Typed t))),
                          ArgString (Version (ObjectKind (Typed t)))]),
                 (s3, log1 @ [CreateCall (Typed t), UpdateCall (Typed t)])))"
  using assms
  by (simp add: Apply_append createOrUpdateObj_def recording_Create recording_Update Let_def
      split: option.splits prod.splits)

theorem Apply_existing_typed_witness:
  "Apply demo_processor
     ([] @ raw_of (Typed demo_typed) # [raw_of (Unstructured demo_unstructured)])
     ([Some already_exists, Some (StatusError StatusReasonConflict ''stale'')], []) =
   (Some (Wrapf (Wrapf (ApiError (StatusError StatusReasonConflict ''stale''))
                   ''failed to update object %v'' [ArgObject (Typed demo_typed)])
            ''unable to create resource of kind: %s, version: %s''
            [ArgString ''Namespace'', ArgString ''v1'']),
    ([], [CreateCall (Typed demo_typed), UpdateCall (Typed demo_typed)]))"
proof -
  have 1: "cl demo_processor = recording scripted"
    by (simp add: demo_processor_def NewProcessor_def)
  have 2: "Object (raw_of (Typed demo_typed)) = Some (Typed demo_typed)"
    by (simp add: raw_of_def)
  have 3: "Apply demo_processor []
             ([Some already_exists, Some (StatusError StatusReasonConflict ''stale'')], []) =
             (None, ([Some already_exists, Some (StatusError StatusReasonConflict ''stale'')], []))"
    by simp
  have 4: "Create scripted (Typed demo_typed)
             [Some already_exists, Some (StatusError StatusReasonConflict ''stale'')] =
             (Some already_exists, [Some (StatusError StatusReasonConflict ''stale'')])"
    by (simp add: scripted_def)
  have 5: "IsAlreadyExists already_exists"
    by (simp add: already_exists_def)
  from Apply_existing_typed[OF 1 2 3 4 5, of "[raw_of (Unstructured demo_unstructured)]"]
  show ?thesis
    by (simp add: scripted_def ObjectKind_def demo_typed_def)
qed

section \<open>Apply: every failure is wrapped\<close>

text \<open>
  Claim C7. \<open>Apply\<close> returns an error exactly when some object of the list, reached
  after the objects before it were applied without error, fails in one of four ways: its
  \<^verbatim>\<open>Create\<close> fails with an error other than already-exists; it is unstructured, exists
  already, and the \<^verbatim>\<open>Get\<close> fails; it is unstructured, exists already, and the
  \<^verbatim>\<open>Update\<close> fails; it is typed, exists already, and the \<^verbatim>\<open>Update\<close> fails. The error
  returned is the failed call's error wrapped twice. The outer wrap carries the kind and
  the version of the object. The inner wrap carries the kind, the name and the namespace
  on the \<^verbatim>\<open>Get\<close> path and on the unstructured \<^verbatim>\<open>Update\<close> path, and the whole object (name
  and namespace with it, in its \<^verbatim>\<open>%v\<close> rendering) on the \<^verbatim>\<open>Create\<close> path and on the typed
  \<^verbatim>\<open>Update\<close> path.
\<close>

theorem Apply_failure_wrapped:
  "Apply p objs s = (Some err, s') \<longleftrightarrow>
     (\<exists>pre rawObj post obj s0 inner.
        objs = pre @ rawObj # post \<and> Object rawObj = Some obj \<and>
        Apply p pre s = (None, s0) \<and>
        err = Wrapf inner ''unable to create resource of kind: %s, version: %s''
                [ArgString (Kind (ObjectKind obj)), ArgString (Version (ObjectKind obj))] \<and>
        ((\<exists>e. Create (cl p) obj s0 = (Some e, s') \<and> \<not> IsAlreadyExists e \<and>
            inner = Wrapf (ApiError e) ''failed to create object %v'' [ArgObject obj]) \<or>
         (\<exists>u e0 s1 e ex'. obj = Unstructured u \<and>
            Create (cl p) obj s0 = (Some e0, s1) \<and> IsAlreadyExists e0 \<and>
            Get (cl p) \<lparr>key_Namespace = u_namespace u, key_Name = u_name u\<rparr>
              (empty_Unstructured\<lparr>u_kind := u_kind u, u_apiVersion := u_apiVersion u\<rparr>) s1
              = ((Some e, ex'), s') \<and>
            inner = Wrapf (ApiError e) fmt_unable_to_get
                      [ArgString (u_kind u), ArgString (u_name u), ArgString (u_namespace u)]) \<or>
         (\<exists>u e0 s1 ex' s2 e. obj = Unstructured u \<and>
            Create (cl p) obj s0 = (Some e0, s1) \<and> IsAlreadyExists e0 \<and>
            Get (cl p) \<lparr>key_Namespace = u_namespace u, key_Name = u_name u\<rparr>
              (empty_Unstructured\<lparr>u_kind := u_kind u, u_apiVersion := u_apiVersion u\<rparr>) s1
              = ((None, ex'), s2) \<and>
            Update (cl p) (Unstructured (u\<lparr>u_resourceVersion := u_resourceVersion ex'\<rparr>)) s2
              = (Some e, s') \<and>
            inner = Wrapf (ApiError e) fmt_unable_to_update
                      [ArgString (u_kind u), ArgString (u_name u), ArgString (u_namespace u)]) \<or>
         (\<exists>t e0 s1 e. obj = Typed t \<and>
            Create (cl p) obj s0 = (Some e0, s1) \<and> IsAlreadyExists e0 \<and>
            Update (cl p) obj s1 = (Some e, s') \<and>
            inner = Wrapf (ApiError e) ''failed to update object %v'' [ArgObject obj])))"
  unfolding Apply_Some_iff createOrUpdateObj_Some_iff by (rule refl)

theorem Apply_failure_wrapped_witness:
  "Apply demo_processor [raw_of (Typed demo_typed), raw_of (Unstructured demo_unstructured)]
     ([None, Some already_exists, Some forbidden], []) =
   (Some (Wrapf (Wrapf (ApiError forbidden) fmt_unable_to_get
                   [ArgString ''ConfigMap'', ArgString ''cm'', ArgString ''dev''])
            ''unable to create resource of kind: %s, version: %s''
            [ArgString ''ConfigMap'', ArgString ''v1'']),
    ([], [CreateCall (Typed demo_typed), CreateCall (Unstructured demo_unstructured),
          GetCall \<lparr>key_Namespace = ''dev'', key_Name = ''cm''\<rparr>
            (empty_Unstructured\<lparr>u_kind := ''ConfigMap'', u_apiVersion := ''v1''\<rparr>)]))"
  apply (rule Apply_failure_wrapped[THEN iffD2])
  apply (rule exI[of _ "[raw_of (Typed demo_typed)]"])
  apply (rule exI[of _ "raw_of (Unstructured demo_unstructured)"])
  apply (rule exI[of _ "[]"])
  apply (rule exI[of _ "Unstructured demo_unstructured"])
  apply (rule exI[of _ "([Some already_exists, Some forbidden], [CreateCall (Typed demo_typed)])"])
  apply (rule exI[of _ "Wrapf (ApiError forbidden) fmt_unable_to_get
                   [ArgString ''ConfigMap'', ArgString ''cm'', ArgString ''dev'']"])
  apply (simp add: demo_defs createOrUpdateObj_def recording_Create recording_Get Let_def
      ObjectKind_def ParseGroupVersion_def)
  done

section \<open>Apply: what reaches the Update of an unstructured object\<close>

text \<open>
  Claim C10. In the calls \<open>createOrUpdateObj\<close> makes for the unstructured object \<open>u\<close>,
  every \<^verbatim>\<open>Get\<close> has the namespace and the name of \<open>u\<close> as its key and an empty object
  with the kind and apiVersion of \<open>u\<close> as its target, and every \<^verbatim>\<open>Update\<close> is given an
  unstructured object that agrees with \<open>u\<close> on apiVersion, kind, namespace, name and
  content: only the resource version may differ.
\<close>

theorem createOrUpdateObj_frame:
  assumes "createOrUpdateObj (recording c) (Unstructured u) (s, []) = (r, (s', log))"
  shows "(\<forall>key ex. GetCall key ex \<in> set log \<longrightarrow>
            key = \<lparr>key_Namespace = u_namespace u, key_Name = u_name u\<rparr> \<and>
            ex = empty_Unstructured\<lparr>u_kind := u_kind u, u_apiVersion := u_apiVersion u\<rparr>) \<and>
         (\<forall>obj. UpdateCall obj \<in> set log \<longrightarrow>
            (\<exists>u'. obj = Unstructured u' \<and> u_apiVersion u' = u_apiVersion u \<and>
               u_kind u' = u_kind u \<and> u_namespace u' = u_namespace u \<and>
               u_name u' = u_name u \<and> u_content u' = u_content u))"
  using createOrUpdateObj_log[OF assms] by auto

theorem createOrUpdateObj_frame_witness:
  "createOrUpdateObj (recording scripted) (Unstructured demo_unstructured)
     ([Some already_exists], []) =
     (None, ([], [CreateCall (Unstructured demo_unstructured),
                  GetCall \<lparr>key_Namespace = ''dev'', key_Name = ''cm''\<rparr>
                    (empty_Unstructured\<lparr>u_kind := ''ConfigMap'', u_apiVersion := ''v1''\<rparr>),
                  UpdateCall (Unstructured (demo_unstructured\<lparr>u_resourceVersion := ''7''\<rparr>))])) \<and>
   (\<exists>u'. Unstructured (demo_unstructured\<lparr>u_resourceVersion := ''7''\<rparr>) = Unstructured u' \<and>
      u_apiVersion u' = ''v1'' \<and> u_kind u' = ''ConfigMap'' \<and> u_namespace u' = ''dev'' \<and>
      u_name u' = ''cm'' \<and> u_content u' = [(''data'', ''x'')])"
proof -
  have h: "createOrUpdateObj (recording scripted) (Unstructured demo_unstructured)
     ([Some already_exists], []) =
     (None, ([], [CreateCall (Unstructured demo_unstructured),
                  GetCall \<lparr>key_Namespace = ''dev'', key_Name = ''cm''\<rparr>
                    (empty_Unstructured\<lparr>u_kind := ''ConfigMap'', u_apiVersion := ''v1''\<rparr>),
                  UpdateCall (Unstructured (demo_unstructured\<lparr>u_resourceVersion := ''7''\<rparr>))]))"
    by (simp add: demo_defs createOrUpdateObj_def recording_Create recording_Get recording_Update
        Let_def SetKind_def SetAPIVersion_def SetResourceVersion_def)
  from createOrUpdateObj_frame[OF h] h show ?thesis
    by (simp add: demo_unstructured_def)
qed

section \<open>Process: overriding parameters\<close>

text \<open>
  Claim C2. Let the override map have the entry \<open>(k, v)\<close> (a map has one entry per
  key). The template has a parameter named \<open>k\<close> exactly when \<open>GetParameterByName\<close>
  finds one. If it finds one, at index \<open>i\<close>, then after the loop over the map that
  parameter has the value \<open>v\<close> and an empty generator directive, and is otherwise as it
  was. If it finds none, the entry is skipped: the loop leaves the template as the map
  without that entry would, and so \<open>Process\<close> returns what it returns without the entry.
\<close>

theorem Process_overrides:
  assumes "distinct (map fst values)" and "(k, v) \<in> set values"
  shows "((\<exists>q \<in> set (Parameters tmpl). Name q = k) \<longleftrightarrow> GetParameterByName tmpl k \<noteq> None) \<and>
         (\<forall>i. GetParameterByName tmpl k = Some i \<longrightarrow>
            i < length (Parameters tmpl) \<and> Name (Parameters tmpl ! i) = k \<and>
            Parameters (inject_variables tmpl values) ! i =
              (Parameters tmpl ! i)\<lparr>Value := v, Generate := []\<rparr>) \<and>
         (GetParameterByName tmpl k = None \<longrightarrow>
            inject_variables tmpl values = inject_variables tmpl (filter (\<lambda>e. fst e \<noteq> k) values) \<and>
            Process tmplProcessor p tmpl values now filters =
              Process tmplProcessor p tmpl (filter (\<lambda>e. fst e \<noteq> k) values) now filters)"
proof (intro conjI allI impI)
  show "(\<exists>q \<in> set (Parameters tmpl). Name q = k) \<longleftrightarrow> GetParameterByName tmpl k \<noteq> None"
    using index_of_name_None_iff[of "Parameters tmpl" k]
    by (auto simp: GetParameterByName_def)
next
  fix i assume i: "GetParameterByName tmpl k = Some i"
  then show len: "i < length (Parameters tmpl)" and "Name (Parameters tmpl ! i) = k"
    by (simp_all add: GetParameterByName_def index_of_name_Some)
  from assms have "fold inject_variable values =
                     fold inject_variable (remove1 (k, v) values) \<circ> inject_variable (k, v)"
    by (intro fold_remove1_split inject_variable_commute_distinct)
  then have split: "inject_variables tmpl values =
                      inject_variables (inject_variable (k, v) tmpl) (remove1 (k, v) values)"
    by (simp add: inject_variables_def)
  have "k \<notin> fst ` set (remove1 (k, v) values)"
  proof
    assume "k \<in> fst ` set (remove1 (k, v) values)"
    then obtain w where w: "(k, w) \<in> set (remove1 (k, v) values)" by auto
    from assms(1) have "distinct values" by (simp add: distinct_map)
    with w have "(k, w) \<in> set values" "(k, w) \<noteq> (k, v)" by simp_all
    with assms show False by (auto dest: eq_key_imp_eq_value)
  qed
  moreover have "GetParameterByName (inject_variable (k, v) tmpl) k = Some i"
    using i by (simp add: GetParameterByName_inject_variable)
  ultimately have "Parameters (inject_variables tmpl values) ! i =
                     Parameters (inject_variable (k, v) tmpl) ! i"
    unfolding split by (rule inject_variables_other_keys)
  also have "\<dots> = (Parameters tmpl ! i)\<lparr>Value := v, Generate := []\<rparr>"
    using i len by (simp add: inject_variable_def)
  finally show "Parameters (inject_variables tmpl values) ! i =
                  (Parameters tmpl ! i)\<lparr>Value := v, Generate := []\<rparr>" .
next
  assume n: "GetParameterByName tmpl k = None"
  then show *: "inject_variables tmpl values =
                  inject_variables tmpl (filter (\<lambda>e. fst e \<noteq> k) values)"
    by (rule inject_variables_unmatched)
  show "Process tmplProcessor p tmpl values now filters =
          Process tmplProcessor p tmpl (filter (\<lambda>e. fst e \<noteq> k) values) now filters"
    unfolding Process_def using * by simp
qed

theorem Process_overrides_witness:
  "Parameters (inject_variables demo_template [(''TOKEN'', ''abc''), (''ABSENT'', ''zzz'')]) ! 1 =
     demo_parameter ''TOKEN'' ''abc'' [] \<and>
   inject_variables demo_template [(''TOKEN'', ''abc''), (''ABSENT'', ''zzz'')] =
     inject_variables demo_template [(''TOKEN'', ''abc'')]"
proof -
  have d: "distinct (map fst [(''TOKEN'', ''abc''), (''ABSENT'', ''zzz'')])"
    by simp
  have m1: "(''TOKEN'', ''abc'') \<in> set [(''TOKEN'', ''abc''), (''ABSENT'', ''zzz'')]"
    and m2: "(''ABSENT'', ''zzz'') \<in> set [(''TOKEN'', ''abc''), (''ABSENT'', ''zzz'')]"
    by simp_all
  have g1: "GetParameterByName demo_template ''TOKEN'' = Some 1"
    and g2: "GetParameterByName demo_template ''ABSENT'' = None"
    by (simp_all add: demo_template_def demo_parameter_def GetParameterByName_def)
  from Process_overrides[OF d m1, where tmpl = demo_template and tmplProcessor = toy_engine
      and p = demo_processor and now = 0 and filters = "[]"] g1
  have "Parameters (inject_variables demo_template [(''TOKEN'', ''abc''), (''ABSENT'', ''zzz'')]) ! 1 =
          (Parameters demo_template ! 1)\<lparr>Value := ''abc'', Generate := []\<rparr>"
    by simp
  moreover from Process_overrides[OF d m2, where tmpl = demo_template and tmplProcessor = toy_engine
      and p = demo_processor and now = 0 and filters = "[]"] g2
  have "inject_variables demo_template [(''TOKEN'', ''abc''), (''ABSENT'', ''zzz'')] =
          inject_variables demo_template [(''TOKEN'', ''abc'')]"
    by simp
  ultimately show ?thesis
    by (simp add: demo_template_def demo_parameter_def)
qed

section \<open>Process: the result\<close>

text \<open>
  Claim C5, as amended. Let the engine, run on the template after the overrides, report
  the errors \<open>errs\<close> and leave the template \<open>expanded\<close>. If there is at least one
  error, \<open>Process\<close> returns no object list and the aggregate of the errors wrapped with
  the processing message. Otherwise it converts \<open>expanded\<close>: if the conversion fails it
  returns no object list and the conversion error wrapped; if the conversion succeeds it
  returns the object list of the converted template, filtered.
\<close>

theorem Process_result:
  assumes "tmplProcessor [(''expression'', NewExpressionValueGenerator now)]
             (inject_variables tmpl values) = (errs, expanded)"
  shows "fst (Process tmplProcessor p tmpl values now filters) =
           (if errs \<noteq> []
            then Inl (Wrap (ToAggregate errs) ''unable to process template'')
            else (case Convert (scheme p) expanded of
                    Inl cerr \<Rightarrow>
                      Inl (Wrap cerr ''failed to convert template to external template object'')
                  | Inr result \<Rightarrow> Inr (Filter (Objects result) filters)))"
  using assms by (simp add: Process_def split: sum.splits)

theorem Process_result_witness:
  "fst (Process toy_engine demo_processor
          (demo_template\<lparr>Parameters := [demo_parameter ''ID'' [] ''uuid'']\<rparr>) [] 0 []) =
     Inl (Wrap (ToAggregate [FieldError ''ID'' ''unknown generator''])
            ''unable to process template'')"
proof -
  have h: "toy_engine [(''expression'', NewExpressionValueGenerator 0)]
             (inject_variables (demo_template\<lparr>Parameters := [demo_parameter ''ID'' [] ''uuid'']\<rparr>) []) =
           ([FieldError ''ID'' ''unknown generator''],
            demo_template\<lparr>Parameters := [demo_parameter ''ID'' [] ''uuid'']\<rparr>)"
    by (simp add: toy_engine_def toy_generate_def inject_variables_def demo_parameter_def)
  from h Process_result[of toy_engine 0
      "demo_template\<lparr>Parameters := [demo_parameter ''ID'' [] ''uuid'']\<rparr>" "[]"
      "[FieldError ''ID'' ''unknown generator'']"
      "demo_template\<lparr>Parameters := [demo_parameter ''ID'' [] ''uuid'']\<rparr>"
      demo_processor "[]"]
  show ?thesis by simp
qed

text \<open>
  The claim as first stated promises the object list whenever the engine reports no
  error. In this run the engine reports none and the scheme has no conversion:
  \<open>Process\<close> returns the conversion error.
\<close>

theorem Process_result_counterexample:
  "fst (toy_engine [(''expression'', NewExpressionValueGenerator 0)]
          (inject_variables demo_template [])) = [] \<and>
   fst (Process toy_engine failing_processor demo_template [] 0 []) =
     Inl (Wrap (ErrorString ''no conversion'')
            ''failed to convert template to external template object'')"
  by (simp add: Process_def toy_engine_def toy_generate_def inject_variables_def
      demo_template_def demo_parameter_def failing_processor_def NewProcessor_def failing_scheme_def)

section \<open>Process: the caller's template\<close>

text \<open>
  Claim C9. When \<open>Process\<close> returns, on every path, the caller's template is the
  template the engine left after running on the template with the overrides
  substituted. An object list that \<open>Process\<close> returns is the filtered object list of a
  separate value, the result of converting the caller's template.
\<close>

theorem Process_template_in_place:
  "snd (Process tmplProcessor p tmpl values now filters) =
     snd (tmplProcessor [(''expression'', NewExpressionValueGenerator now)]
            (inject_variables tmpl values)) \<and>
   (\<forall>objs. fst (Process tmplProcessor p tmpl values now filters) = Inr objs \<longrightarrow>
      (\<exists>result. Convert (scheme p) (snd (Process tmplProcessor p tmpl values now filters)) = Inr result \<and>
         objs = Filter (Objects result) filters))"
  by (auto simp: Process_def split: prod.splits sum.splits)

theorem Process_template_in_place_witness:
  "snd (Process toy_engine demo_processor demo_template [(''USER'', ''alice'')] 1 []) =
     demo_template\<lparr>Parameters := [demo_parameter ''USER'' ''alice'' [],
                                    demo_parameter ''TOKEN'' ''odd'' ''expression'']\<rparr> \<and>
   fst (Process toy_engine demo_processor demo_template [(''USER'', ''alice'')] 1 []) =
     Inr (Objects demo_template)"
proof -
  have e: "toy_engine [(''expression'', NewExpressionValueGenerator 1)]
             (inject_variables demo_template [(''USER'', ''alice'')]) =
           ([], demo_template\<lparr>Parameters := [demo_parameter ''USER'' ''alice'' [],
                                              demo_parameter ''TOKEN'' ''odd'' ''expression'']\<rparr>)"
    by (simp add: toy_engine_def toy_generate_def template_defs)
  have r: "fst (Process toy_engine demo_processor demo_template [(''USER'', ''alice'')] 1 []) =
             Inr (Objects demo_template)"
    by (simp add: Process_def e demo_processor_def NewProcessor_def demo_scheme_def Filter_def)
  from Process_template_in_place[of toy_engine demo_processor demo_template
      "[(''USER'', ''alice'')]" 1 "[]"] e r
  show ?thesis by simp
qed

section \<open>Process: determinism without generator directives\<close>

text \<open>
  Claim C8. The engine is a parameter; it is assumed not to consult the generators on
  a template in which no parameter carries a generator directive. Take two runs of
  \<open>Process\<close> on the same template with override maps that are equal as maps (ranged over
  in any two orders) and with any two readings of the clock. If no parameter carries a
  generator directive once the overrides are applied, the two runs return the same
  result and leave the caller's template in the same state.
\<close>

theorem Process_deterministic:
  assumes "\<And>gens gens' t. generator_free t \<Longrightarrow> tmplProcessor gens t = tmplProcessor gens' t"
    and "distinct (map fst values1)" and "distinct (map fst values2)"
    and "map_of values1 = map_of values2"
    and "generator_free (inject_variables tmpl values1)"
  shows "Process tmplProcessor p tmpl values1 now1 filters =
         Process tmplProcessor p tmpl values2 now2 filters"
proof -
  from assms(2-4) have eq: "inject_variables tmpl values2 = inject_variables tmpl values1"
    by (intro inject_variables_map_of) simp_all
  from assms(1)[OF assms(5)]
  have "tmplProcessor [(''expression'', NewExpressionValueGenerator now1)]
          (inject_variables tmpl values1) =
        tmplProcessor [(''expression'', NewExpressionValueGenerator now2)]
          (inject_variables tmpl values1)" .
  then show ?thesis
    unfolding Process_def eq Let_def by simp
qed

theorem Process_deterministic_witness:
  "Process toy_engine demo_processor demo_template
     [(''USER'', ''alice''), (''TOKEN'', ''abc'')] 1 [demo_filter_typed] =
   Process toy_engine demo_processor demo_template
     [(''TOKEN'', ''abc''), (''USER'', ''alice'')] 2 [demo_filter_typed]"
proof -
  have 1: "distinct (map fst [(''USER'', ''alice''), (''TOKEN'', ''abc'')])"
    and 2: "distinct (map fst [(''TOKEN'', ''abc''), (''USER'', ''alice'')])"
    by simp_all
  have 3: "map_of [(''USER'', ''alice''), (''TOKEN'', ''abc'')] =
           map_of [(''TOKEN'', ''abc''), (''USER'', ''alice'')]"
    by (rule ext) simp
  have 4: "generator_free (inject_variables demo_template [(''USER'', ''alice''), (''TOKEN'', ''abc'')])"
    by (simp add: generator_free_def template_defs)
  show ?thesis
    by (rule Process_deterministic[OF toy_engine_generator_free 1 2 3 4])
qed

section \<open>Filter: what is retained\<close>

text \<open>
  Claim C6. \<open>Filter\<close> keeps exactly the objects that every filter accepts, each as often
  as it occurs and in the order of the input; with no filter it returns its input; and
  filtering with \<open>[A, B]\<close> is filtering with \<open>A\<close> and then filtering the result with \<open>B\<close>.
\<close>

theorem Filter_retains:
  "Filter objs filters = filter (\<lambda>obj. list_all (\<lambda>f. f obj) filters) objs \<and>
   (\<forall>obj. obj \<in> set (Filter objs filters) \<longleftrightarrow> obj \<in> set objs \<and> (\<forall>f \<in> set filters. f obj)) \<and>
   Filter objs [] = objs \<and>
   subseq (Filter objs filters) objs \<and>
   Filter objs [A, B] = Filter (Filter objs [A]) [B]"
proof (intro conjI allI)
  show "Filter objs filters = filter (\<lambda>obj. list_all (\<lambda>f. f obj) filters) objs"
    by (rule Filter_eq_filter)
  show "obj \<in> set (Filter objs filters) \<longleftrightarrow> obj \<in> set objs \<and> (\<forall>f \<in> set filters. f obj)" for obj
    by (auto simp: Filter_eq_filter list_all_iff)
  show "Filter objs [] = objs"
    by (simp add: Filter_def)
  show "subseq (Filter objs filters) objs"
    by (simp add: Filter_eq_filter)
  show "Filter objs [A, B] = Filter (Filter objs [A]) [B]"
    by (simp add: Filter_def)
qed

theorem Filter_retains_witness:
  "Filter [raw_of (Unstructured demo_unstructured), \<lparr>Raw = ''{}'', Object = None\<rparr>,
           raw_of (Typed demo_typed)]
     [demo_filter_object, demo_filter_typed] = [raw_of (Typed demo_typed)]"
proof -
  from Filter_retains[of "[raw_of (Unstructured demo_unstructured), \<lparr>Raw = ''{}'', Object = None\<rparr>,
           raw_of (Typed demo_typed)]" "[demo_filter_object, demo_filter_typed]"
           demo_filter_object demo_filter_typed]
  have "Filter [raw_of (Unstructured demo_unstructured), \<lparr>Raw = ''{}'', Object = None\<rparr>,
           raw_of (Typed demo_typed)] [demo_filter_object, demo_filter_typed] =
        filter (\<lambda>obj. list_all (\<lambda>f. f obj) [demo_filter_object, demo_filter_typed])
          [raw_of (Unstructured demo_unstructured), \<lparr>Raw = ''{}'', Object = None\<rparr>,
           raw_of (Typed demo_typed)]"
    by (rule conjunct1)
  then show ?thesis
    by (simp add: demo_filter_object_def demo_filter_typed_def raw_of_def)
qed

end
